theory Spec2Isabelle
  imports Main "HOL-Library.Word"
begin

section \<open>The order API (order-api/main.go)\<close>

subsection \<open>Data\<close>

text \<open>
  The struct \<open>Order\<close>. The field \<open>Total\<close> is a \<open>float64\<close> that the handlers only copy
  between the request body and the store, so its type is left as the parameter \<open>'f\<close>.
\<close>

record 'f Order =
  ID :: string
  Total :: 'f
  Product :: string

text \<open>
  The package-level variables \<open>ordersStore\<close> and \<open>nextOrderID\<close>. Every handler that writes
  them holds \<open>ordersMutex\<close> for its whole critical section, so a handler is one atomic
  step on this state. \<open>nextOrderID\<close> is a Go \<open>int\<close>: 64 bits, two's complement, and
  \<open>++\<close> wraps around.
\<close>

record 'f state =
  ordersStore :: "string \<rightharpoonup> 'f Order"
  nextOrderID :: "64 word"

record request =
  reqMethod :: string
  urlPath :: string
  reqBody :: string

text \<open>What a handler wrote to the \<open>http.ResponseWriter\<close>: the status code and the payload.\<close>

datatype 'f payload =
    ErrorText string
  | OrderJSON "'f Order"
  | OrdersJSON "'f Order list"
  | NoContent

record 'f response =
  statusCode :: nat
  payload :: "'f payload"

definition StatusOK :: nat where "StatusOK = 200"
definition StatusCreated :: nat where "StatusCreated = 201"
definition StatusNoContent :: nat where "StatusNoContent = 204"
definition StatusBadRequest :: nat where "StatusBadRequest = 400"
definition StatusNotFound :: nat where "StatusNotFound = 404"
definition StatusMethodNotAllowed :: nat where "StatusMethodNotAllowed = 405"

definition http_Error :: "string \<Rightarrow> nat \<Rightarrow> 'f response" where
  "http_Error msg code = \<lparr>statusCode = code, payload = ErrorText msg\<rparr>"

subsection \<open>Library functions the handlers call\<close>

text \<open>\<open>strings.TrimPrefix(s, prefix)\<close>: \<open>s\<close> without the leading \<open>prefix\<close>, or \<open>s\<close> itself.\<close>

definition TrimPrefix :: "string \<Rightarrow> string \<Rightarrow> string" where
  "TrimPrefix s p = (if take (length p) s = p then drop (length p) s else s)"

text \<open>
  \<open>fmt.Sprintf("o1%02d", n)\<close>. The verb \<open>%02d\<close> asks for width 2 with zero padding: the
  digits are padded with zeros to two places, and a negative number gives up one place to
  its sign.
\<close>

definition digit_char :: "nat \<Rightarrow> char" where
  "digit_char d = ''0123456789'' ! d"

function dec_digits :: "nat \<Rightarrow> string" where
  "dec_digits n = (if n < 10 then [digit_char n] else dec_digits (n div 10) @ [digit_char (n mod 10)])"
  by pat_completeness auto
termination
  by (relation "measure id") auto

definition zero_pad :: "nat \<Rightarrow> string \<Rightarrow> string" where
  "zero_pad w s = replicate (w - length s) CHR ''0'' @ s"

definition fmt_02d :: "int \<Rightarrow> string" where
  "fmt_02d i = (if i < 0 then CHR ''-'' # zero_pad 1 (dec_digits (nat (- i)))
                else zero_pad 2 (dec_digits (nat i)))"

definition Sprintf_o1 :: "64 word \<Rightarrow> string" where
  "Sprintf_o1 n = ''o1'' @ fmt_02d (sint n)"

subsection \<open>State at process start\<close>

definition init_state :: "'f \<Rightarrow> 'f \<Rightarrow> 'f state" where
  "init_state t1 t2 =
     \<lparr>ordersStore = [''o101'' \<mapsto> \<lparr>ID = ''o101'', Total = t1, Product = ''Laptop''\<rparr>,
                     ''o102'' \<mapsto> \<lparr>ID = ''o102'', Total = t2, Product = ''Mouse''\<rparr>],
      nextOrderID = 3\<rparr>"

subsection \<open>Handlers\<close>

text \<open>
  A handler takes the state and the request and returns what it wrote to the response
  and the state it leaves; its log lines and the \<open>Content-Type\<close> header are left out.
  \<open>json.NewDecoder(r.Body).Decode(&order)\<close> is the parameter \<open>decode\<close>: \<open>None\<close> when it
  returns an error. The order in which \<open>range ordersStore\<close> visits the map is not fixed by
  Go; it is the parameter \<open>visit\<close>.
\<close>

definition handleGetOrders ::
  "((string \<rightharpoonup> 'f Order) \<Rightarrow> 'f Order list) \<Rightarrow> 'f state \<Rightarrow> request \<Rightarrow> 'f response \<times> 'f state" where
  "handleGetOrders visit s r =
     (let id = TrimPrefix (urlPath r) ''/orders/'' in
      if id \<noteq> '''' then
        (case ordersStore s id of
           None \<Rightarrow> (http_Error ''{\"error\": \"Order not found\"}'' StatusNotFound, s)
         | Some order \<Rightarrow> (\<lparr>statusCode = StatusOK, payload = OrderJSON order\<rparr>, s))
      else (\<lparr>statusCode = StatusOK, payload = OrdersJSON (visit (ordersStore s))\<rparr>, s))"

definition handleCreateOrder ::
  "(string \<Rightarrow> 'f Order option) \<Rightarrow> 'f state \<Rightarrow> request \<Rightarrow> 'f response \<times> 'f state" where
  "handleCreateOrder decode s r =
     (case decode (reqBody r) of
        None \<Rightarrow> (http_Error ''{\"error\": \"Invalid request body\"}'' StatusBadRequest, s)
      | Some newOrder \<Rightarrow>
          (let newOrder = newOrder\<lparr>ID := Sprintf_o1 (nextOrderID s)\<rparr>;
               s = s\<lparr>nextOrderID := nextOrderID s + 1\<rparr>;
               s = s\<lparr>ordersStore := (ordersStore s)(ID newOrder \<mapsto> newOrder)\<rparr>
           in (\<lparr>statusCode = StatusCreated, payload = OrderJSON newOrder\<rparr>, s)))"

definition handleUpdateOrder ::
  "(string \<Rightarrow> 'f Order option) \<Rightarrow> 'f state \<Rightarrow> request \<Rightarrow> 'f response \<times> 'f state" where
  "handleUpdateOrder decode s r =
     (let id = TrimPrefix (urlPath r) ''/orders/'' in
      if id = '''' then (http_Error ''{\"error\": \"Order ID is required\"}'' StatusBadRequest, s)
      else
        (case ordersStore s id of
           None \<Rightarrow> (http_Error ''{\"error\": \"Order not found\"}'' StatusNotFound, s)
         | Some _ \<Rightarrow>
             (case decode (reqBody r) of
                None \<Rightarrow> (http_Error ''{\"error\": \"Invalid request body\"}'' StatusBadRequest, s)
              | Some updatedOrder \<Rightarrow>
                  (let updatedOrder = updatedOrder\<lparr>ID := id\<rparr>;
                       s = s\<lparr>ordersStore := (ordersStore s)(id \<mapsto> updatedOrder)\<rparr>
                   in (\<lparr>statusCode = StatusOK, payload = OrderJSON updatedOrder\<rparr>, s)))))"

definition handleDeleteOrder :: "'f state \<Rightarrow> request \<Rightarrow> 'f response \<times> 'f state" where
  "handleDeleteOrder s r =
     (let id = TrimPrefix (urlPath r) ''/orders/'' in
      if id = '''' then (http_Error ''{\"error\": \"Order ID is required\"}'' StatusBadRequest, s)
      else
        (case ordersStore s id of
           None \<Rightarrow> (http_Error ''{\"error\": \"Order not found\"}'' StatusNotFound, s)
         | Some _ \<Rightarrow>
             (\<lparr>statusCode = StatusNoContent, payload = NoContent\<rparr>,
              s\<lparr>ordersStore := (ordersStore s)(id := None)\<rparr>)))"

definition ordersRouter ::
  "(string \<Rightarrow> 'f Order option) \<Rightarrow> ((string \<rightharpoonup> 'f Order) \<Rightarrow> 'f Order list) \<Rightarrow>
   'f state \<Rightarrow> request \<Rightarrow> 'f response \<times> 'f state" where
  "ordersRouter decode visit s r =
     (if reqMethod r = ''GET'' then handleGetOrders visit s r
      else if reqMethod r = ''POST'' then handleCreateOrder decode s r
      else if reqMethod r = ''PUT'' then handleUpdateOrder decode s r
      else if reqMethod r = ''DELETE'' then handleDeleteOrder s r
      else (http_Error ''Method not allowed'' StatusMethodNotAllowed, s))"

subsection \<open>A run of the process\<close>

text \<open>
  \<open>net/http\<close> hands every request for \<open>/orders\<close> and \<open>/orders/...\<close> to \<open>ordersRouter\<close>. The
  handlers take \<open>ordersMutex\<close> around every access to the two variables, so the effect of
  concurrent requests on the state is that of the same requests handled one after the
  other, in the order in which they take the lock: \<open>serve\<close> gives the responses and the
  final state of such a run.
\<close>

fun serve ::
  "(string \<Rightarrow> 'f Order option) \<Rightarrow> ((string \<rightharpoonup> 'f Order) \<Rightarrow> 'f Order list) \<Rightarrow>
   'f state \<Rightarrow> request list \<Rightarrow> 'f response list \<times> 'f state" where
  "serve decode visit s [] = ([], s)"
| "serve decode visit s (r # rs) =
     (case ordersRouter decode visit s r of
        (w, s') \<Rightarrow> (case serve decode visit s' rs of (ws, s'') \<Rightarrow> (w # ws, s'')))"



section \<open>The registry client (product-api/main.go, order-api/main.go)\<close>

subsection \<open>Data\<close>

text \<open>
  \<open>fargo.Instance\<close>, with the fields that \<open>main\<close> fills in. \<open>fargo.UP\<close> and
  \<open>fargo.MyOwn\<close> are string constants of the library.
\<close>

record Instance =
  HostName :: string
  Port :: nat
  App :: string
  IPAddr :: string
  VipAddress :: string
  SecureVipAddress :: string
  DataCenterInfoName :: string
  Status :: string
  HealthCheckUrl :: string

text \<open>
  A non-nil Go \<open>error\<close> returned by a call to the registry or by the listener: the
  registry answered with a status code other than success (404 when it does not know the
  lease), or the call failed below HTTP. \<open>None\<close> of type \<open>error option\<close> is \<open>nil\<close>.
\<close>

datatype error = StatusCode nat | Transport string

text \<open>
  What a call \<open>RegisterInstance(instance)\<close> does, seen from \<open>main\<close>. The call gets the
  pointer. It returns an error, or it returns \<open>nil\<close>; before it returns \<open>nil\<close> the library
  may read the registration back from the registry and write what it read into the
  record that the pointer refers to (\<open>Some\<close> of that record), or leave the record alone.
\<close>

datatype register_result = RegisterFailed error | Registered "Instance option"

datatype os_signal = Interrupt | SIGTERM

text \<open>
  The two closures that \<open>main\<close> starts with \<open>go\<close>. Both refer to the variables
  \<open>eurekaConn\<close> and \<open>instance\<close> of \<open>main\<close>.
\<close>

datatype goroutine = HeartbeatLoop | ShutdownHandler

text \<open>
  What the process does that can be seen from outside, in the order in which it does it.
  A call to the registry is recorded with the content that the record behind \<open>instance\<close>
  has when the call is made, and with what the call returned.
\<close>

datatype event =
    RegisterInstance Instance register_result
  | HeartBeatInstance Instance "error option"
  | DeregisterInstance Instance "error option"
  | LogPrintln string
  | LogPrintf string error
  | LogFatal error
  | Sleep nat
  | Go goroutine
  | SignalNotify "os_signal list"
  | HandleFunc string
  | ListenAndServe string

text \<open>
  The process: what it has done so far, its exit code once it has exited, whether its
  listener accepts connections, how many requests its handlers are serving and have
  served, and the record that the pointer \<open>instance\<close> refers to. The three goroutines
  share that one record.
\<close>

record process =
  trace :: "event list"
  exited :: "int option"
  listening :: bool
  inflight :: nat
  completed :: nat
  instanceRecord :: Instance

text \<open>The process before \<open>main\<close> runs; the record is still all zero values.\<close>

definition start :: process where
  "start =
     \<lparr>trace = [], exited = None, listening = False, inflight = 0, completed = 0,
      instanceRecord =
        \<lparr>HostName = '''', Port = 0, App = '''', IPAddr = '''', VipAddress = '''',
         SecureVipAddress = '''', DataCenterInfoName = '''', Status = '''', HealthCheckUrl = ''''\<rparr>\<rparr>"

definition emit :: "event \<Rightarrow> process \<Rightarrow> process" where
  "emit e p = p\<lparr>trace := trace p @ [e]\<rparr>"

text \<open>
  \<open>eurekaConn.RegisterInstance(instance)\<close> with the result \<open>res\<close>: the call carries the
  current content of the record, and a read-back replaces it.
\<close>

definition call_RegisterInstance :: "register_result \<Rightarrow> process \<Rightarrow> process" where
  "call_RegisterInstance res p =
     (let p = emit (RegisterInstance (instanceRecord p) res) p
      in case res of
           Registered (Some readBack) \<Rightarrow> p\<lparr>instanceRecord := readBack\<rparr>
         | _ \<Rightarrow> p)"

text \<open>
  \<open>os.Exit(code)\<close>: the program terminates immediately with the given code. Its sockets
  are closed with it; the requests that its handlers were serving stay unanswered.
\<close>

definition os_Exit :: "int \<Rightarrow> process \<Rightarrow> process" where
  "os_Exit code p = p\<lparr>exited := Some code, listening := False\<rparr>"

text \<open>\<open>log.Fatal(err)\<close>: print, then \<open>os.Exit(1)\<close>.\<close>

definition log_Fatal :: "error \<Rightarrow> process \<Rightarrow> process" where
  "log_Fatal err p = os_Exit 1 (emit (LogFatal err) p)"

text \<open>
  The server side of \<open>net/http\<close> while the listener is open: a request that arrives is
  handed to a handler goroutine, and a handler that returns has answered its request. A
  process that has exited does neither.
\<close>

definition accept_request :: "process \<Rightarrow> process" where
  "accept_request p =
     (if exited p = None \<and> listening p then p\<lparr>inflight := Suc (inflight p)\<rparr> else p)"

definition finish_request :: "process \<Rightarrow> process" where
  "finish_request p =
     (if exited p = None \<and> 0 < inflight p
      then p\<lparr>inflight := inflight p - 1, completed := Suc (completed p)\<rparr> else p)"

text \<open>
  The handler goroutines run beside the others: \<open>handlers steps p\<close> is the process after
  the given arrivals and returns, in this order.
\<close>

datatype handler_step = Arrives | Returns

fun handlers :: "handler_step list \<Rightarrow> process \<Rightarrow> process" where
  "handlers [] p = p"
| "handlers (Arrives # steps) p = handlers steps (accept_request p)"
| "handlers (Returns # steps) p = handlers steps (finish_request p)"

subsection \<open>The two services\<close>

text \<open>
  The two \<open>main\<close> functions are the same code up to the instance they build, the texts
  they log, the patterns they hand to \<open>http.HandleFunc\<close> and the address they listen on.
\<close>

record service =
  svcInstance :: Instance
  registeredMsg :: string
  shutdownMsg :: string
  patterns :: "string list"
  startingMsg :: string
  listenAddr :: string

definition product_api :: service where
  "product_api =
     \<lparr>svcInstance =
        \<lparr>HostName = ''localhost'', Port = 9091, App = ''PRODUCT-SERVICE'', IPAddr = ''127.0.0.1'',
         VipAddress = ''product-service'', SecureVipAddress = ''product-service'',
         DataCenterInfoName = ''MyOwn'', Status = ''UP'',
         HealthCheckUrl = ''http://localhost:9091/health''\<rparr>,
      registeredMsg = ''Successfully registered with Eureka as PRODUCT-SERVICE'',
      shutdownMsg = ''Shutting down Go Product API.'',
      patterns = [''/products'', ''/health''],
      startingMsg = ''Go Product API starting on port 9091...'',
      listenAddr = '':9091''\<rparr>"

definition order_api :: service where
  "order_api =
     \<lparr>svcInstance =
        \<lparr>HostName = ''localhost'', Port = 9092, App = ''ORDER-SERVICE'', IPAddr = ''127.0.0.1'',
         VipAddress = ''order-service'', SecureVipAddress = ''order-service'',
         DataCenterInfoName = ''MyOwn'', Status = ''UP'',
         HealthCheckUrl = ''http://localhost:9092/health''\<rparr>,
      registeredMsg = ''Successfully registered with Eureka as ORDER-SERVICE'',
      shutdownMsg = ''Shutting down Go Order API.'',
      patterns = [''/orders/'', ''/orders'', ''/health''],
      startingMsg = ''Go Order API (CRUD) starting on port 9092...'',
      listenAddr = '':9092''\<rparr>"

subsection \<open>The main goroutine\<close>

text \<open>
  \<open>main\<close> builds the record and keeps the pointer to it in \<open>instance\<close>. \<open>reg\<close> is what the
  first \<open>RegisterInstance\<close> does. \<open>http.ListenAndServe\<close> returns only with an error:
  \<open>listenErr\<close> is that error, and \<open>None\<close> when the call does not return and the process
  goes on serving.
\<close>

definition main :: "service \<Rightarrow> register_result \<Rightarrow> error option \<Rightarrow> process \<Rightarrow> process" where
  "main svc reg listenErr p =
     (let p = p\<lparr>instanceRecord := svcInstance svc\<rparr>;
          p = call_RegisterInstance reg p;
          p = (case reg of
                 RegisterFailed err \<Rightarrow> emit (LogPrintf ''Eureka registration failed: %v'' err) p
               | Registered _ \<Rightarrow> emit (LogPrintln (registeredMsg svc)) p);
          p = emit (Go HeartbeatLoop) p;
          p = emit (SignalNotify [Interrupt, SIGTERM]) p;
          p = emit (Go ShutdownHandler) p;
          p = foldl (\<lambda>p pat. emit (HandleFunc pat) p) p (patterns svc);
          p = emit (LogPrintln (startingMsg svc)) p;
          p = emit (ListenAndServe (listenAddr svc)) p
      in case listenErr of
           Some err \<Rightarrow> log_Fatal err p
         | None \<Rightarrow> p\<lparr>listening := True\<rparr>)"

subsection \<open>The heartbeat goroutine\<close>

text \<open>
  One pass through the body of the \<open>for\<close> loop. \<open>hbErr\<close> is what \<open>HeartBeatInstance\<close>
  returns in this pass and \<open>reg\<close> what \<open>RegisterInstance\<close> does if the pass calls it. Both
  calls get the pointer \<open>instance\<close>.
\<close>

definition heartbeat_tick :: "error option \<Rightarrow> register_result \<Rightarrow> process \<Rightarrow> process" where
  "heartbeat_tick hbErr reg p =
     (let p = emit (HeartBeatInstance (instanceRecord p) hbErr) p;
          p = (case hbErr of
                 Some err \<Rightarrow>
                   (let p = emit (LogPrintf ''Eureka lease renewal (heartbeat) failed: %v. Re-registering...'' err) p
                    in call_RegisterInstance reg p)
               | None \<Rightarrow> p)
      in emit (Sleep 30) p)"

text \<open>
  The loop has no exit. \<open>heartbeat_loop hb rg i n p\<close> is the process after the passes
  \<open>i, ..., i + n - 1\<close>, where \<open>hb k\<close> and \<open>rg k\<close> are what the two calls do in pass \<open>k\<close>.
\<close>

fun heartbeat_loop ::
  "(nat \<Rightarrow> error option) \<Rightarrow> (nat \<Rightarrow> register_result) \<Rightarrow> nat \<Rightarrow> nat \<Rightarrow> process \<Rightarrow> process" where
  "heartbeat_loop hb rg i 0 p = p"
| "heartbeat_loop hb rg i (Suc n) p = heartbeat_loop hb rg (Suc i) n (heartbeat_tick (hb i) (rg i) p)"

subsection \<open>The shutdown goroutine\<close>

text \<open>
  The goroutine blocks on the channel until one of the two signals handed to
  \<open>signal.Notify\<close> arrives; \<open>shutdown_handler\<close> is what it does then. \<open>deregErr\<close> is what
  \<open>DeregisterInstance\<close> returns.
\<close>

definition shutdown_handler :: "service \<Rightarrow> os_signal \<Rightarrow> error option \<Rightarrow> process \<Rightarrow> process" where
  "shutdown_handler svc sig deregErr p =
     (let p = emit (LogPrintln ''De-registering from Eureka...'') p;
          p = emit (DeregisterInstance (instanceRecord p) deregErr) p;
          p = emit (LogPrintln (shutdownMsg svc)) p
      in os_Exit 0 p)"

text \<open>
  The same four steps with the handler goroutines running beside them: \<open>h1\<close> are the
  arrivals and returns before \<open>DeregisterInstance\<close> is called, \<open>h2\<close> those while the call
  is under way, \<open>h3\<close> those between its return and \<open>os.Exit\<close>.
\<close>

definition shutdown_beside_handlers ::
  "service \<Rightarrow> os_signal \<Rightarrow> error option \<Rightarrow> handler_step list \<Rightarrow> handler_step list \<Rightarrow>
   handler_step list \<Rightarrow> process \<Rightarrow> process" where
  "shutdown_beside_handlers svc sig deregErr h1 h2 h3 p =
     (let p = emit (LogPrintln ''De-registering from Eureka...'') p;
          p = handlers h1 p;
          p = emit (DeregisterInstance (instanceRecord p) deregErr) p;
          p = handlers h2 p;
          p = emit (LogPrintln (shutdownMsg svc)) p;
          p = handlers h3 p
      in os_Exit 0 p)"

fun is_Deregister :: "event \<Rightarrow> bool" where
  "is_Deregister (DeregisterInstance inst err) = True"
| "is_Deregister e = False"

fun is_Register :: "event \<Rightarrow> bool" where
  "is_Register (RegisterInstance inst res) = True"
| "is_Register e = False"

section \<open>The registry and the router (api-gateway)\<close>

text \<open>
  Of the gateway, only \<open>application.properties\<close> is at hand; the registry server has no
  source of its own in the repository. What follows takes the routing rules and the
  cross-origin lists from that file and everything else from the specification.
\<close>

subsection \<open>Leases and the registry\<close>

text \<open>
  Modelled from the spec: the lease record of the registry (section 3), whose source is
  missing. Times and durations are integers on one clock.
\<close>

datatype lease_status = UP | DOWN | UNKNOWN

record Lease =
  serviceName :: string
  instanceId :: string
  addrHost :: string
  addrPort :: nat
  healthCheckTarget :: string
  status :: lease_status
  lastRenewedAt :: int
  ttl :: int

text \<open>
  Modelled from the spec: the visibility invariant of section 3, "a lease is visible to
  routing queries only while \<open>status == UP\<close> and \<open>now - lastRenewedAt < ttl\<close>"; the
  registry's code is missing.
\<close>

definition visible :: "int \<Rightarrow> Lease \<Rightarrow> bool" where
  "visible now l = (status l = UP \<and> now - lastRenewedAt l < ttl l)"

text \<open>
  Modelled from the spec: \<open>ResolveLive\<close> of section 4.1, the leases of a name that pass
  the visibility invariant, expiry being checked on the read; the registry's code is
  missing. The table is a list of leases and the answer keeps its order.
\<close>

definition ResolveLive :: "Lease list \<Rightarrow> int \<Rightarrow> string \<Rightarrow> Lease list" where
  "ResolveLive table now name = filter (\<lambda>l. serviceName l = name \<and> visible now l) table"

subsection \<open>Configuration\<close>

text \<open>
  Modelled from the spec: a rule \<open>(pathPattern, targetServiceName, pathRewrite)\<close> of
  section 4.3, the rewrite being the number of leading path segments to strip, and the
  cross-origin allow-list of section 6; the gateway's configuration classes are missing.
\<close>

record rule =
  pathPattern :: string
  targetServiceName :: string
  stripSegments :: nat

record config =
  rules :: "rule list"
  allowedOrigins :: "string list"
  allowedMethods :: "string list"

text \<open>
  The two routes and the cross-origin lists of \<open>application.properties\<close>
  (\<open>allowed-headers\<close> is \<open>*\<close>: every header is allowed).
\<close>

definition gateway_config :: config where
  "gateway_config =
     \<lparr>rules =
        [\<lparr>pathPattern = ''/api/products/**'', targetServiceName = ''PRODUCT-SERVICE'', stripSegments = 1\<rparr>,
         \<lparr>pathPattern = ''/api/orders/**'', targetServiceName = ''ORDER-SERVICE'', stripSegments = 1\<rparr>],
      allowedOrigins = [''http://localhost:5173'', ''http://localhost:3000'', ''https://production-domain.com''],
      allowedMethods = [''GET'', ''POST'', ''PUT'', ''DELETE'', ''OPTIONS'']\<rparr>"

subsection \<open>Requests, responses and calls to an instance\<close>

text \<open>
  Modelled from the spec: the request that reaches the router and the response that leaves
  it (section 4.3: method, path, headers, body; status code, headers, body), the
  gateway's code being missing. \<open>origin\<close> is the \<open>Origin\<close> header that a browser sends.
\<close>

record gw_request =
  gwMethod :: string
  gwPath :: string
  origin :: "string option"
  gwHeaders :: "(string \<times> string) list"
  gwBody :: string

record gw_response =
  gwStatus :: nat
  respHeaders :: "(string \<times> string) list"
  respBody :: string

record upstream_call =
  toHost :: string
  toPort :: nat
  sent :: gw_request

subsection \<open>Paths\<close>

text \<open>
  Modelled from the spec: the segments of a path, for the patterns and the "strip a path
  prefix" rewrite of section 4.3; the gateway's path code is missing. A segment is a
  maximal run of characters other than \<open>/\<close>.
\<close>

fun segments_from :: "string \<Rightarrow> string \<Rightarrow> string list" where
  "segments_from cur [] = (if cur = [] then [] else [cur])"
| "segments_from cur (c # cs) =
     (if c = CHR ''/'' then (if cur = [] then [] else [cur]) @ segments_from [] cs
      else segments_from (cur @ [c]) cs)"

definition segments :: "string \<Rightarrow> string list" where
  "segments path = segments_from [] path"

text \<open>
  Modelled from the spec: matching a path against a pattern such as \<open>/api/orders/**\<close>
  (section 4.3), the gateway's matcher being missing: segment by segment, a final \<open>**\<close>
  standing for any remaining segments.
\<close>

fun match_segments :: "string list \<Rightarrow> string list \<Rightarrow> bool" where
  "match_segments [] [] = True"
| "match_segments [] (x # xs) = False"
| "match_segments (p # ps) xs =
     (if p = ''**'' \<and> ps = [] then True
      else (case xs of [] \<Rightarrow> False | x # xs' \<Rightarrow> p = x \<and> match_segments ps xs'))"

definition path_matches :: "string \<Rightarrow> string \<Rightarrow> bool" where
  "path_matches pattern path = match_segments (segments pattern) (segments path)"

text \<open>
  Modelled from the spec: "patterns are evaluated in configured order; first match wins"
  (section 4.3); the gateway's code is missing.
\<close>

fun first_match :: "rule list \<Rightarrow> string \<Rightarrow> rule option" where
  "first_match [] path = None"
| "first_match (r # rs) path = (if path_matches (pathPattern r) path then Some r else first_match rs path)"

text \<open>
  Modelled from the spec: the rewrite "strip n segments" (sections 4.3 and 8); the
  gateway's filter is missing.
\<close>

definition join_segments :: "string list \<Rightarrow> string" where
  "join_segments segs = (if segs = [] then ''/'' else concat (map (\<lambda>s. CHR ''/'' # s) segs))"

definition strip_prefix :: "nat \<Rightarrow> string \<Rightarrow> string" where
  "strip_prefix n path = join_segments (drop n (segments path))"

subsection \<open>The router\<close>

text \<open>
  Modelled from the spec: the cross-origin policy of section 4.3, "the router enforces a
  configured allow-list of origins, methods, and headers for browser-originated requests";
  the gateway's code is missing. A request is browser-originated when it carries an
  \<open>Origin\<close> header.
\<close>

definition cors_allows :: "config \<Rightarrow> gw_request \<Rightarrow> bool" where
  "cors_allows cfg r =
     (case origin r of
        None \<Rightarrow> True
      | Some og \<Rightarrow> og \<in> set (allowedOrigins cfg) \<and> gwMethod r \<in> set (allowedMethods cfg))"

text \<open>
  Modelled from the spec: the hop-by-hop headers that are not forwarded (section 4.3);
  the gateway's code is missing. The names are those of RFC 7230.
\<close>

definition hop_by_hop :: "string list" where
  "hop_by_hop = [''Connection'', ''Keep-Alive'', ''Proxy-Authenticate'', ''Proxy-Authorization'',
                 ''TE'', ''Trailer'', ''Transfer-Encoding'', ''Upgrade'']"

definition forwarded :: "rule \<Rightarrow> gw_request \<Rightarrow> gw_request" where
  "forwarded rl r =
     r\<lparr>gwPath := strip_prefix (stripSegments rl) (gwPath r),
       gwHeaders := filter (\<lambda>h. fst h \<notin> set hop_by_hop) (gwHeaders r)\<rparr>"

definition gateway_error :: "nat \<Rightarrow> string \<Rightarrow> gw_response" where
  "gateway_error code msg = \<lparr>gwStatus = code, respHeaders = [], respBody = msg\<rparr>"

text \<open>
  Modelled from the spec: the router's contract of section 4.3, whose code is missing.
  The cross-origin check comes first. Then the first matching rule is taken (none: 404),
  the live instances of its target are resolved (none: 503), one of them is selected
  (\<open>pick\<close> is the selection policy's choice, taken modulo their number), the rewritten
  request is sent to its address, and the instance's response is relayed as it is
  (no response: 502). \<open>backend\<close> is the network: what a call to an instance returns,
  \<open>None\<close> when it times out or the connection fails. The result is the response to the
  caller together with the calls that were made to instances.
\<close>

definition route ::
  "config \<Rightarrow> Lease list \<Rightarrow> int \<Rightarrow> nat \<Rightarrow> (upstream_call \<Rightarrow> gw_response option) \<Rightarrow> gw_request \<Rightarrow>
   gw_response \<times> upstream_call list" where
  "route cfg table now pick backend r =
     (if \<not> cors_allows cfg r then (gateway_error 403 ''Invalid CORS request'', [])
      else
        (case first_match (rules cfg) (gwPath r) of
           None \<Rightarrow> (gateway_error 404 ''Not Found'', [])
         | Some rl \<Rightarrow>
             (case ResolveLive table now (targetServiceName rl) of
                [] \<Rightarrow> (gateway_error 503 ''Service Unavailable'', [])
              | l # ls \<Rightarrow>
                  (let chosen = (l # ls) ! (pick mod length (l # ls));
                       call = \<lparr>toHost = addrHost chosen, toPort = addrPort chosen, sent = forwarded rl r\<rparr>
                   in (case backend call of
                         None \<Rightarrow> (gateway_error 502 ''Bad Gateway'', [call])
                       | Some resp \<Rightarrow> (resp, [call]))))))"

section \<open>Sample inputs\<close>

text \<open>
  What \<open>json.Decode\<close> gives on the bodies that the sample requests carry. The other two
  bodies that occur below, the empty one and \<open>{\<close>, are not JSON values.
\<close>

definition decode_sample :: "string \<Rightarrow> int Order option" where
  "decode_sample b =
     (if b = ''{\"product\": \"Keyboard\", \"total\": 75}''
        then Some \<lparr>ID = '''', Total = 75, Product = ''Keyboard''\<rparr>
      else if b = ''{\"id\": \"o102\", \"product\": \"Pad\", \"total\": 5}''
        then Some \<lparr>ID = ''o102'', Total = 5, Product = ''Pad''\<rparr>
      else None)"

text \<open>The sample requests never list the whole store.\<close>

definition visit_none :: "(string \<rightharpoonup> int Order) \<Rightarrow> int Order list" where
  "visit_none m = []"

definition PUT :: "string \<Rightarrow> string \<Rightarrow> request" where
  "PUT p b = \<lparr>reqMethod = ''PUT'', urlPath = p, reqBody = b\<rparr>"

definition DELETE :: "string \<Rightarrow> request" where
  "DELETE p = \<lparr>reqMethod = ''DELETE'', urlPath = p, reqBody = ''''\<rparr>"



text \<open>
  A read-back in which the registry names another host, and what the registry does in the
  passes of a sample run: in pass 1 it does not know the lease and accepts the registration
  that follows, in pass 2 it cannot be reached.
\<close>

definition readback_sample :: Instance where
  "readback_sample = (svcInstance order_api)\<lparr>HostName := ''other-host''\<rparr>"

definition hb_sample :: "nat \<Rightarrow> error option" where
  "hb_sample k = (if k = 1 then Some (StatusCode 404)
                  else if k = 2 then Some (Transport ''connection refused'') else None)"

definition rg_sample :: "nat \<Rightarrow> register_result" where
  "rg_sample k = (if k = 1 then Registered (Some readback_sample)
                  else RegisterFailed (Transport ''connection refused''))"

definition order_lease :: Lease where
  "order_lease =
     \<lparr>serviceName = ''ORDER-SERVICE'', instanceId = ''localhost:9092'', addrHost = ''127.0.0.1'',
      addrPort = 9092, healthCheckTarget = ''http://localhost:9092/health'', status = UP,
      lastRenewedAt = 100, ttl = 90\<rparr>"

definition product_lease :: Lease where
  "product_lease =
     \<lparr>serviceName = ''PRODUCT-SERVICE'', instanceId = ''localhost:9091'', addrHost = ''127.0.0.1'',
      addrPort = 9091, healthCheckTarget = ''http://localhost:9091/health'', status = UP,
      lastRenewedAt = 100, ttl = 90\<rparr>"

definition get_o101 :: gw_request where
  "get_o101 =
     \<lparr>gwMethod = ''GET'', gwPath = ''/api/orders/o101'', origin = Some ''http://localhost:5173'',
      gwHeaders = [(''Accept'', ''application/json''), (''Connection'', ''keep-alive'')], gwBody = ''''\<rparr>"

definition get_o101_foreign :: gw_request where
  "get_o101_foreign = get_o101\<lparr>origin := Some ''http://evil.example''\<rparr>"

definition order_backend :: "upstream_call \<Rightarrow> gw_response option" where
  "order_backend c =
     (if toHost c = ''127.0.0.1'' \<and> toPort c = 9092 \<and> gwPath (sent c) = ''/orders/o101''
      then Some \<lparr>gwStatus = 200, respHeaders = [(''Content-Type'', ''application/json'')],
                 respBody = ''{\"id\":\"o101\",\"total\":1200.5,\"product\":\"Laptop\"}''\<rparr>
      else Some \<lparr>gwStatus = 404, respHeaders = [], respBody = ''404 page not found''\<rparr>)"



section \<open>Properties of the registry client\<close>

subsection \<open>What each goroutine does to the process\<close>

lemma HandleFuncs:
  "foldl (\<lambda>p pat. emit (HandleFunc pat) p) p pats = p\<lparr>trace := trace p @ map HandleFunc pats\<rparr>"
  by (induction pats arbitrary: p) (simp_all add: emit_def)

lemma call_RegisterInstance_eq:
  "call_RegisterInstance res p =
     p\<lparr>trace := trace p @ [RegisterInstance (instanceRecord p) res],
       instanceRecord := (case res of Registered (Some readBack) \<Rightarrow> readBack | _ \<Rightarrow> instanceRecord p)\<rparr>"
  by (simp add: call_RegisterInstance_def emit_def Let_def split: register_result.splits option.splits)

lemma heartbeat_tick_eq:
  "heartbeat_tick hbErr reg p =
     p\<lparr>trace := trace p @ HeartBeatInstance (instanceRecord p) hbErr #
         (case hbErr of
            Some err \<Rightarrow> [LogPrintf ''Eureka lease renewal (heartbeat) failed: %v. Re-registering...'' err,
                         RegisterInstance (instanceRecord p) reg]
          | None \<Rightarrow> []) @ [Sleep 30],
       instanceRecord :=
         (case hbErr of
            Some err \<Rightarrow> (case reg of Registered (Some readBack) \<Rightarrow> readBack | _ \<Rightarrow> instanceRecord p)
          | None \<Rightarrow> instanceRecord p)\<rparr>"
  by (simp add: heartbeat_tick_def call_RegisterInstance_eq emit_def Let_def
      split: register_result.splits option.splits)

lemma exited_heartbeat_tick: "exited (heartbeat_tick hbErr reg p) = exited p"
  by (simp add: heartbeat_tick_eq)

lemma heartbeat_loop_snoc:
  "heartbeat_loop hb rg i (Suc n) p =
     heartbeat_tick (hb (i + n)) (rg (i + n)) (heartbeat_loop hb rg i n p)"
proof (induction n arbitrary: i p)
  case 0
  show ?case by simp
next
  case (Suc n)
  have "heartbeat_loop hb rg i (Suc (Suc n)) p
        = heartbeat_loop hb rg (Suc i) (Suc n) (heartbeat_tick (hb i) (rg i) p)"
    by (simp only: heartbeat_loop.simps)
  also have "\<dots> = heartbeat_tick (hb (Suc i + n)) (rg (Suc i + n))
                    (heartbeat_loop hb rg (Suc i) n (heartbeat_tick (hb i) (rg i) p))"
    by (rule Suc.IH)
  finally show ?case by simp
qed

lemma exited_heartbeat_loop: "exited (heartbeat_loop hb rg i n p) = exited p"
  by (induction n arbitrary: i p) (simp_all add: exited_heartbeat_tick)

text \<open>As long as no pass has written a read-back, the record is the one the loop began with.\<close>

lemma instanceRecord_heartbeat_loop:
  "(\<And>j. j < n \<Longrightarrow> hb (i + j) = None \<or> (\<forall>readBack. rg (i + j) \<noteq> Registered (Some readBack))) \<Longrightarrow>
   instanceRecord (heartbeat_loop hb rg i n p) = instanceRecord p"
proof (induction n)
  case 0
  show ?case by simp
next
  case (Suc n)
  have "instanceRecord (heartbeat_loop hb rg i n p) = instanceRecord p"
    by (rule Suc.IH) (simp add: Suc.prems)
  moreover have "hb (i + n) = None \<or> (\<forall>readBack. rg (i + n) \<noteq> Registered (Some readBack))"
    by (rule Suc.prems) simp
  ultimately show ?case
    by (auto simp only: heartbeat_loop_snoc heartbeat_tick_eq simp_thms
        split: option.splits register_result.splits) simp_all
qed

lemma main_eq:
  "main svc reg listenErr p =
     p\<lparr>trace := trace p @
         [RegisterInstance (svcInstance svc) reg,
          (case reg of
             RegisterFailed err \<Rightarrow> LogPrintf ''Eureka registration failed: %v'' err
           | Registered readBack \<Rightarrow> LogPrintln (registeredMsg svc)),
          Go HeartbeatLoop,
          SignalNotify [Interrupt, SIGTERM],
          Go ShutdownHandler]
         @ map HandleFunc (patterns svc)
         @ [LogPrintln (startingMsg svc), ListenAndServe (listenAddr svc)]
         @ (case listenErr of Some err \<Rightarrow> [LogFatal err] | None \<Rightarrow> []),
       exited := (case listenErr of Some err \<Rightarrow> Some 1 | None \<Rightarrow> exited p),
       listening := (listenErr = None),
       instanceRecord := (case reg of Registered (Some readBack) \<Rightarrow> readBack | _ \<Rightarrow> svcInstance svc)\<rparr>"
  unfolding main_def Let_def HandleFuncs
  by (simp add: call_RegisterInstance_eq log_Fatal_def os_Exit_def emit_def
      split: option.splits register_result.splits)

lemma shutdown_handler_eq:
  "shutdown_handler svc sig deregErr p =
     p\<lparr>trace := trace p @
         [LogPrintln ''De-registering from Eureka...'',
          DeregisterInstance (instanceRecord p) deregErr,
          LogPrintln (shutdownMsg svc)],
       exited := Some 0,
       listening := False\<rparr>"
  by (simp add: shutdown_handler_def Let_def os_Exit_def emit_def)

text \<open>
  The handler goroutines leave the trace and the record alone, and writing to the trace
  leaves their counts alone.
\<close>

lemma handlers_fields:
  "trace (handlers steps p) = trace p \<and> instanceRecord (handlers steps p) = instanceRecord p
   \<and> exited (handlers steps p) = exited p \<and> listening (handlers steps p) = listening p"
  by (induction steps p rule: handlers.induct) (simp_all add: accept_request_def finish_request_def)

lemma accept_request_emit: "accept_request (emit e p) = emit e (accept_request p)"
  by (simp add: accept_request_def emit_def)

lemma finish_request_emit: "finish_request (emit e p) = emit e (finish_request p)"
  by (simp add: finish_request_def emit_def)

lemma handlers_emit: "handlers steps (emit e p) = emit e (handlers steps p)"
  by (induction steps p rule: handlers.induct)
     (simp_all only: handlers.simps accept_request_emit finish_request_emit)

lemma handlers_append: "handlers (xs @ ys) p = handlers ys (handlers xs p)"
  by (induction xs p rule: handlers.induct) simp_all

lemma shutdown_beside_handlers_eq:
  "shutdown_beside_handlers svc sig deregErr h1 h2 h3 p =
     (handlers (h1 @ h2 @ h3) p)
       \<lparr>trace := trace p @
          [LogPrintln ''De-registering from Eureka...'',
           DeregisterInstance (instanceRecord p) deregErr,
           LogPrintln (shutdownMsg svc)],
        exited := Some 0,
        listening := False\<rparr>"
proof -
  let ?e1 = "LogPrintln ''De-registering from Eureka...''"
  let ?e2 = "DeregisterInstance (instanceRecord p) deregErr"
  let ?e3 = "LogPrintln (shutdownMsg svc)"
  have i: "instanceRecord (handlers h1 (emit ?e1 p)) = instanceRecord p"
    by (simp add: handlers_fields emit_def)
  have "shutdown_beside_handlers svc sig deregErr h1 h2 h3 p
        = os_Exit 0 (handlers h3 (emit ?e3 (handlers h2 (emit ?e2 (handlers h1 (emit ?e1 p))))))"
    by (simp only: shutdown_beside_handlers_def Let_def i)
  also have "\<dots> = os_Exit 0 (emit ?e3 (emit ?e2 (emit ?e1 (handlers (h1 @ h2 @ h3) p))))"
    by (simp only: handlers_emit handlers_append)
  also have "\<dots> = (handlers (h1 @ h2 @ h3) p)
       \<lparr>trace := trace p @ [?e1, ?e2, ?e3], exited := Some 0, listening := False\<rparr>"
    using handlers_fields [of "h1 @ h2 @ h3" p] by (simp add: os_Exit_def emit_def)
  finally show ?thesis .
qed

subsection \<open>Heartbeats\<close>

text \<open>
  Claim C1, as the code has it. \<open>main\<close> builds the record, registers it and starts the
  heartbeat goroutine; every call gets the pointer \<open>instance\<close>. In every pass of the loop
  in which \<open>HeartBeatInstance\<close> returns an error (a 404 of the registry or any failure of
  the transport), the pass goes on with one log line and a call of \<open>RegisterInstance\<close>
  with that pointer, then sleeps; whatever that call returns, the next pass follows and
  begins with a heartbeat, and the process has not exited. The call carries the record
  as it is at that moment: a successful \<open>RegisterInstance\<close> may have replaced its content
  by the read-back of the registry, and as long as none has, it is the record the loop
  began with, which after startup is the one \<open>main\<close> built.
\<close>

theorem heartbeat_failure_reregisters:
  assumes "hb k = Some err"
  shows "trace (main svc reg listenErr start) ! 0 = RegisterInstance (svcInstance svc) reg
    \<and> trace (main svc reg listenErr start) ! 2 = Go HeartbeatLoop
    \<and> instanceRecord (main svc reg listenErr start)
        = (case reg of Registered (Some readBack) \<Rightarrow> readBack | _ \<Rightarrow> svcInstance svc)
    \<and> trace (heartbeat_loop hb rg 0 (Suc k) p)
        = trace (heartbeat_loop hb rg 0 k p) @
          [HeartBeatInstance (instanceRecord (heartbeat_loop hb rg 0 k p)) (Some err),
           LogPrintf ''Eureka lease renewal (heartbeat) failed: %v. Re-registering...'' err,
           RegisterInstance (instanceRecord (heartbeat_loop hb rg 0 k p)) (rg k),
           Sleep 30]
    \<and> instanceRecord (heartbeat_loop hb rg 0 (Suc k) p)
        = (case rg k of Registered (Some readBack) \<Rightarrow> readBack
           | _ \<Rightarrow> instanceRecord (heartbeat_loop hb rg 0 k p))
    \<and> heartbeat_loop hb rg 0 (Suc (Suc k)) p
        = heartbeat_tick (hb (Suc k)) (rg (Suc k)) (heartbeat_loop hb rg 0 (Suc k) p)
    \<and> trace (heartbeat_loop hb rg 0 (Suc (Suc k)) p) ! length (trace (heartbeat_loop hb rg 0 (Suc k) p))
        = HeartBeatInstance (instanceRecord (heartbeat_loop hb rg 0 (Suc k) p)) (hb (Suc k))
    \<and> exited (heartbeat_loop hb rg 0 (Suc (Suc k)) p) = exited p
    \<and> ((\<forall>j<k. hb j = None \<or> (\<forall>readBack. rg j \<noteq> Registered (Some readBack)))
          \<longrightarrow> instanceRecord (heartbeat_loop hb rg 0 k p) = instanceRecord p)"
proof -
  let ?q = "heartbeat_loop hb rg 0 k p"
  let ?q' = "heartbeat_loop hb rg 0 (Suc k) p"
  have 1: "trace (main svc reg listenErr start) ! 0 = RegisterInstance (svcInstance svc) reg"
    and 2: "trace (main svc reg listenErr start) ! 2 = Go HeartbeatLoop"
    and 3: "instanceRecord (main svc reg listenErr start)
        = (case reg of Registered (Some readBack) \<Rightarrow> readBack | _ \<Rightarrow> svcInstance svc)"
    by (simp_all add: main_eq start_def)
  have s: "?q' = heartbeat_tick (hb k) (rg k) ?q"
    using heartbeat_loop_snoc [of hb rg 0 k p] by (simp del: heartbeat_loop.simps)
  from assms have 4: "trace ?q' = trace ?q @
          [HeartBeatInstance (instanceRecord ?q) (Some err),
           LogPrintf ''Eureka lease renewal (heartbeat) failed: %v. Re-registering...'' err,
           RegisterInstance (instanceRecord ?q) (rg k), Sleep 30]"
    by (simp add: s heartbeat_tick_eq del: heartbeat_loop.simps)
  from assms have 5: "instanceRecord ?q'
        = (case rg k of Registered (Some readBack) \<Rightarrow> readBack | _ \<Rightarrow> instanceRecord ?q)"
    by (simp add: s heartbeat_tick_eq del: heartbeat_loop.simps)
  have 6: "heartbeat_loop hb rg 0 (Suc (Suc k)) p = heartbeat_tick (hb (Suc k)) (rg (Suc k)) ?q'"
    using heartbeat_loop_snoc [of hb rg 0 "Suc k" p] by (simp del: heartbeat_loop.simps)
  have 7: "trace (heartbeat_loop hb rg 0 (Suc (Suc k)) p) ! length (trace ?q')
        = HeartBeatInstance (instanceRecord ?q') (hb (Suc k))"
    by (simp add: 6 heartbeat_tick_eq del: heartbeat_loop.simps)
  have 8: "exited (heartbeat_loop hb rg 0 (Suc (Suc k)) p) = exited p"
    by (rule exited_heartbeat_loop)
  have 9: "(\<forall>j<k. hb j = None \<or> (\<forall>readBack. rg j \<noteq> Registered (Some readBack)))
          \<longrightarrow> instanceRecord ?q = instanceRecord p"
    using instanceRecord_heartbeat_loop [of k hb 0 rg p] by simp
  from 1 2 3 4 5 6 7 8 9 show ?thesis by blast
qed

lemma hb_sample_values:
  "hb_sample 0 = None" "hb_sample 1 = Some (StatusCode 404)"
  "hb_sample 2 = Some (Transport ''connection refused'')" "hb_sample 3 = None"
  by (simp_all add: hb_sample_def)

lemma rg_sample_values:
  "rg_sample 1 = Registered (Some readback_sample)"
  "rg_sample 2 = RegisterFailed (Transport ''connection refused'')"
  by (simp_all add: rg_sample_def)

lemma sample_loop_trace:
  "trace (heartbeat_loop hb_sample rg_sample 0 3 (main order_api (Registered None) None start))
     = trace (main order_api (Registered None) None start) @
       [HeartBeatInstance (svcInstance order_api) None,
        Sleep 30,
        HeartBeatInstance (svcInstance order_api) (Some (StatusCode 404)),
        LogPrintf ''Eureka lease renewal (heartbeat) failed: %v. Re-registering...'' (StatusCode 404),
        RegisterInstance (svcInstance order_api) (Registered (Some readback_sample)),
        Sleep 30,
        HeartBeatInstance readback_sample (Some (Transport ''connection refused'')),
        LogPrintf ''Eureka lease renewal (heartbeat) failed: %v. Re-registering...''
          (Transport ''connection refused''),
        RegisterInstance readback_sample (RegisterFailed (Transport ''connection refused'')),
        Sleep 30]"
proof -
  have i: "instanceRecord (main order_api (Registered None) None start) = svcInstance order_api"
    by (simp add: main_eq)
  have n: "(3::nat) = Suc (Suc (Suc 0))" by simp
  have h: "hb_sample 0 = None" "hb_sample (Suc 0) = Some (StatusCode 404)"
    "hb_sample (Suc (Suc 0)) = Some (Transport ''connection refused'')"
    by (simp_all add: hb_sample_def)
  have r: "rg_sample (Suc 0) = Registered (Some readback_sample)"
    "rg_sample (Suc (Suc 0)) = RegisterFailed (Transport ''connection refused'')"
    by (simp_all add: rg_sample_def)
  show ?thesis
    unfolding n heartbeat_loop.simps
    by (simp add: heartbeat_tick_eq h r i)
qed

theorem heartbeat_failure_reregisters_witness:
  "hb_sample 2 = Some (Transport ''connection refused'')
   \<and> trace (main order_api (Registered None) None start) ! 0
       = RegisterInstance (svcInstance order_api) (Registered None)
   \<and> trace (heartbeat_loop hb_sample rg_sample 0 3 start)
       = trace (heartbeat_loop hb_sample rg_sample 0 2 start) @
         [HeartBeatInstance (instanceRecord (heartbeat_loop hb_sample rg_sample 0 2 start))
            (Some (Transport ''connection refused'')),
          LogPrintf ''Eureka lease renewal (heartbeat) failed: %v. Re-registering...''
            (Transport ''connection refused''),
          RegisterInstance (instanceRecord (heartbeat_loop hb_sample rg_sample 0 2 start))
            (RegisterFailed (Transport ''connection refused'')),
          Sleep 30]
   \<and> trace (heartbeat_loop hb_sample rg_sample 0 4 start)
         ! length (trace (heartbeat_loop hb_sample rg_sample 0 3 start))
       = HeartBeatInstance (instanceRecord (heartbeat_loop hb_sample rg_sample 0 3 start)) None
   \<and> exited (heartbeat_loop hb_sample rg_sample 0 4 start) = None"
proof -
  have h: "hb_sample 2 = Some (Transport ''connection refused'')" by (rule hb_sample_values)
  have r: "rg_sample 2 = RegisterFailed (Transport ''connection refused'')" by (rule rg_sample_values)
  have n: "hb_sample 3 = None" by (rule hb_sample_values)
  have e: "exited start = None" by (simp add: start_def)
  have s: "Suc 2 = 3" "Suc 3 = 4" by simp_all
  from heartbeat_failure_reregisters [of hb_sample 2 "Transport ''connection refused''" order_api
      "Registered None" None rg_sample start, OF h]
  show ?thesis unfolding s r n e using h by blast
qed

text \<open>
  Claim C1 as stated, with the re-registration carrying the record built at startup, fails
  on the order API when the registry accepts the re-registration of pass 1 and reads
  back another host name: the re-registration of pass 2 carries the read-back.
\<close>

theorem heartbeat_reregisters_read_back:
  "hb_sample 2 = Some (Transport ''connection refused'')
   \<and> filter is_Register
         (trace (heartbeat_loop hb_sample rg_sample 0 3 (main order_api (Registered None) None start)))
       = [RegisterInstance (svcInstance order_api) (Registered None),
          RegisterInstance (svcInstance order_api) (Registered (Some readback_sample)),
          RegisterInstance readback_sample (RegisterFailed (Transport ''connection refused''))]
   \<and> readback_sample \<noteq> svcInstance order_api"
proof -
  have m: "filter is_Register (trace (main order_api (Registered None) None start))
           = [RegisterInstance (svcInstance order_api) (Registered None)]"
    by (simp add: main_eq start_def order_api_def)
  have f: "filter is_Register
         (trace (heartbeat_loop hb_sample rg_sample 0 3 (main order_api (Registered None) None start)))
       = [RegisterInstance (svcInstance order_api) (Registered None),
          RegisterInstance (svcInstance order_api) (Registered (Some readback_sample)),
          RegisterInstance readback_sample (RegisterFailed (Transport ''connection refused''))]"
    by (simp only: sample_loop_trace filter_append m) simp
  have n: "readback_sample \<noteq> svcInstance order_api"
    by (simp add: readback_sample_def order_api_def)
  from f n hb_sample_values(3) show ?thesis by blast
qed


subsection \<open>Startup\<close>

text \<open>
  Claim C2. When the \<open>RegisterInstance\<close> call of startup fails, \<open>main\<close> logs the error and
  goes on: it starts the two goroutines, installs the handlers and calls
  \<open>ListenAndServe\<close>. The process exits exactly when \<open>ListenAndServe\<close> returns its error
  (then with code 1); otherwise it listens and serves requests, and no error that the
  registry returns to the heartbeat loop makes it exit.
\<close>

theorem registration_failure_not_fatal:
  assumes "reg = RegisterFailed err"
  shows "trace (main svc reg listenErr start) =
       [RegisterInstance (svcInstance svc) (RegisterFailed err),
        LogPrintf ''Eureka registration failed: %v'' err,
        Go HeartbeatLoop,
        SignalNotify [Interrupt, SIGTERM],
        Go ShutdownHandler]
       @ map HandleFunc (patterns svc)
       @ [LogPrintln (startingMsg svc), ListenAndServe (listenAddr svc)]
       @ (case listenErr of Some e \<Rightarrow> [LogFatal e] | None \<Rightarrow> [])
    \<and> (exited (main svc reg listenErr start) \<noteq> None) = (listenErr \<noteq> None)
    \<and> (listenErr = None \<longrightarrow>
          listening (main svc reg listenErr start)
          \<and> inflight (accept_request (main svc reg listenErr start)) = 1
          \<and> completed (finish_request (accept_request (main svc reg listenErr start))) = 1)
    \<and> (listenErr \<noteq> None \<longrightarrow> exited (main svc reg listenErr start) = Some 1)
    \<and> exited (heartbeat_loop hb rg 0 n (main svc reg None start)) = None"
  using assms
  by (cases listenErr)
     (simp_all add: main_eq start_def accept_request_def finish_request_def exited_heartbeat_loop)

theorem registration_failure_not_fatal_witness:
  "trace (main product_api (RegisterFailed (Transport ''connection refused'')) None start) =
       [RegisterInstance (svcInstance product_api) (RegisterFailed (Transport ''connection refused'')),
        LogPrintf ''Eureka registration failed: %v'' (Transport ''connection refused''),
        Go HeartbeatLoop,
        SignalNotify [Interrupt, SIGTERM],
        Go ShutdownHandler,
        HandleFunc ''/products'', HandleFunc ''/health'',
        LogPrintln ''Go Product API starting on port 9091...'',
        ListenAndServe '':9091'']
   \<and> exited (main product_api (RegisterFailed (Transport ''connection refused'')) None start) = None
   \<and> listening (main product_api (RegisterFailed (Transport ''connection refused'')) None start)
   \<and> completed (finish_request (accept_request
         (main product_api (RegisterFailed (Transport ''connection refused'')) None start))) = 1
   \<and> exited (main product_api (RegisterFailed (Transport ''connection refused''))
         (Some (Transport ''address already in use'')) start) = Some 1"
proof -
  let ?e = "Transport ''connection refused''"
  have p: "patterns product_api = [''/products'', ''/health'']"
    "startingMsg product_api = ''Go Product API starting on port 9091...''"
    "listenAddr product_api = '':9091''"
    by (simp_all add: product_api_def)
  from registration_failure_not_fatal [of "RegisterFailed ?e" ?e product_api None]
  have a: "trace (main product_api (RegisterFailed ?e) None start) =
       [RegisterInstance (svcInstance product_api) (RegisterFailed ?e),
        LogPrintf ''Eureka registration failed: %v'' ?e,
        Go HeartbeatLoop,
        SignalNotify [Interrupt, SIGTERM],
        Go ShutdownHandler,
        HandleFunc ''/products'', HandleFunc ''/health'',
        LogPrintln ''Go Product API starting on port 9091...'',
        ListenAndServe '':9091'']
   \<and> exited (main product_api (RegisterFailed ?e) None start) = None
   \<and> listening (main product_api (RegisterFailed ?e) None start)
   \<and> completed (finish_request (accept_request (main product_api (RegisterFailed ?e) None start))) = 1"
    by (simp add: p)
  from registration_failure_not_fatal [of "RegisterFailed ?e" ?e product_api
      "Some (Transport ''address already in use'')"]
  have b: "exited (main product_api (RegisterFailed ?e) (Some (Transport ''address already in use'')) start)
      = Some 1"
    by simp
  from a b show ?thesis by blast
qed


subsection \<open>Shutdown\<close>

text \<open>
  Claim C3. \<open>main\<close> asks for interrupt and SIGTERM and starts the shutdown goroutine,
  which waits for one of them. On that signal it logs, calls
  \<open>DeregisterInstance\<close> exactly once, logs again and exits with code 0. The error of the
  call is dropped: whatever it is, there is no second call.
\<close>

theorem shutdown_deregisters_once:
  "trace (main svc reg listenErr start) ! 3 = SignalNotify [Interrupt, SIGTERM]
   \<and> trace (main svc reg listenErr start) ! 4 = Go ShutdownHandler
   \<and> trace (shutdown_handler svc sig deregErr p) =
     trace p @ [LogPrintln ''De-registering from Eureka...'',
                DeregisterInstance (instanceRecord p) deregErr,
                LogPrintln (shutdownMsg svc)]
   \<and> length (filter is_Deregister (drop (length (trace p)) (trace (shutdown_handler svc sig deregErr p)))) = 1
   \<and> exited (shutdown_handler svc sig deregErr p) = Some 0
   \<and> \<not> listening (shutdown_handler svc sig deregErr p)"
  by (simp add: shutdown_handler_eq main_eq start_def)

theorem shutdown_deregisters_once_witness:
  "trace (shutdown_handler order_api SIGTERM (Some (Transport ''connection refused''))
            (main order_api (Registered None) None start))
     = trace (main order_api (Registered None) None start) @
       [LogPrintln ''De-registering from Eureka...'',
        DeregisterInstance (svcInstance order_api) (Some (Transport ''connection refused'')),
        LogPrintln ''Shutting down Go Order API.'']
   \<and> exited (shutdown_handler order_api SIGTERM (Some (Transport ''connection refused''))
            (main order_api (Registered None) None start)) = Some 0"
  using shutdown_deregisters_once [of order_api "Registered None" None SIGTERM
      "Some (Transport ''connection refused'')" "main order_api (Registered None) None start"]
  by (simp add: main_eq order_api_def)


text \<open>
  Claim C4 speaks of the heartbeat loop as a background task beside the request handlers,
  of the real time between two heartbeats and of calls that overlap in time. Goroutine
  scheduling and the clock are outside this model, where a goroutine is a function from
  process to process and a call has returned when the next one starts.
\<close>

text \<open>
  Claim C5, as the code has it. After the deregistration the shutdown goroutine writes one
  log line and calls \<open>os.Exit(0)\<close>; none of its steps waits for the handlers, whatever
  they do beside it. A request whose handler returns before \<open>os.Exit\<close> is completed; the
  requests still in flight then stay so, since the process has exited and its listener is
  closed.
\<close>

theorem shutdown_exits_without_drain:
  "drop (length (trace p)) (trace (shutdown_beside_handlers svc sig deregErr h1 h2 h3 p))
     = [LogPrintln ''De-registering from Eureka...'',
        DeregisterInstance (instanceRecord p) deregErr,
        LogPrintln (shutdownMsg svc)]
   \<and> exited (shutdown_beside_handlers svc sig deregErr h1 h2 h3 p) = Some 0
   \<and> \<not> listening (shutdown_beside_handlers svc sig deregErr h1 h2 h3 p)
   \<and> inflight (shutdown_beside_handlers svc sig deregErr h1 h2 h3 p)
       = inflight (handlers (h1 @ h2 @ h3) p)
   \<and> completed (shutdown_beside_handlers svc sig deregErr h1 h2 h3 p)
       = completed (handlers (h1 @ h2 @ h3) p)
   \<and> finish_request (shutdown_beside_handlers svc sig deregErr h1 h2 h3 p)
       = shutdown_beside_handlers svc sig deregErr h1 h2 h3 p
   \<and> shutdown_beside_handlers svc sig deregErr [] [] [] p = shutdown_handler svc sig deregErr p"
  by (simp add: shutdown_beside_handlers_eq shutdown_handler_eq finish_request_def)

theorem shutdown_exits_without_drain_witness:
  "inflight (shutdown_beside_handlers order_api SIGTERM None [Arrives] [Returns] []
       (accept_request (main order_api (Registered None) None start))) = 1
   \<and> completed (shutdown_beside_handlers order_api SIGTERM None [Arrives] [Returns] []
       (accept_request (main order_api (Registered None) None start))) = 1
   \<and> exited (shutdown_beside_handlers order_api SIGTERM None [Arrives] [Returns] []
       (accept_request (main order_api (Registered None) None start))) = Some 0"
  using shutdown_exits_without_drain [of "accept_request (main order_api (Registered None) None start)"
      order_api SIGTERM None "[Arrives]" "[Returns]" "[]"]
  by (simp add: main_eq accept_request_def finish_request_def start_def)


text \<open>
  Claim C5 as stated, with requests in flight draining before the process terminates, fails
  on the order API with one request being served when SIGTERM arrives and no handler
  returning before \<open>os.Exit\<close>: the process exits with that request still in flight, and
  it is never completed.
\<close>

theorem shutdown_drops_inflight:
  "inflight (accept_request (main order_api (Registered None) None start)) = 1
   \<and> exited (shutdown_handler order_api SIGTERM None
         (accept_request (main order_api (Registered None) None start))) = Some 0
   \<and> completed (finish_request
         (shutdown_handler order_api SIGTERM None
            (accept_request (main order_api (Registered None) None start)))) = 0"
  by (simp add: shutdown_handler_eq main_eq accept_request_def finish_request_def start_def)

section \<open>Properties of the router\<close>

lemma first_match_o101:
  "first_match (rules gateway_config) ''/api/orders/o101''
     = Some \<lparr>pathPattern = ''/api/orders/**'', targetServiceName = ''ORDER-SERVICE'', stripSegments = 1\<rparr>"
  by (simp add: gateway_config_def path_matches_def segments_def)

lemma strip_prefix_o101: "strip_prefix (Suc 0) ''/api/orders/o101'' = ''/orders/o101''"
  by (simp add: strip_prefix_def segments_def join_segments_def)


text \<open>
  Claim C6. With the configured rule for \<open>/api/orders/**\<close> (strip one segment) and the
  lease at 127.0.0.1:9092 as the live instance of ORDER-SERVICE, a request for
  \<open>/api/orders/o101\<close> that passes the cross-origin policy is sent to 127.0.0.1:9092 with
  the path \<open>/orders/o101\<close>, in one call, and the response of the instance (status code,
  headers and body) is the response to the caller, unchanged.
\<close>

theorem route_orders_o101:
  assumes "gwPath r = ''/api/orders/o101''"
    and "cors_allows gateway_config r"
    and "ResolveLive table now ''ORDER-SERVICE'' = [l]"
    and "addrHost l = ''127.0.0.1''" and "addrPort l = 9092"
    and "backend \<lparr>toHost = ''127.0.0.1'', toPort = 9092,
                  sent = r\<lparr>gwPath := ''/orders/o101'',
                           gwHeaders := filter (\<lambda>h. fst h \<notin> set hop_by_hop) (gwHeaders r)\<rparr>\<rparr> = Some resp"
  shows "route gateway_config table now pick backend r =
           (resp, [\<lparr>toHost = ''127.0.0.1'', toPort = 9092,
                    sent = r\<lparr>gwPath := ''/orders/o101'',
                             gwHeaders := filter (\<lambda>h. fst h \<notin> set hop_by_hop) (gwHeaders r)\<rparr>\<rparr>])"
  using assms
  by (simp add: route_def first_match_o101 forwarded_def strip_prefix_o101 Let_def)

theorem route_orders_o101_witness:
  "gwPath get_o101 = ''/api/orders/o101''
   \<and> cors_allows gateway_config get_o101
   \<and> ResolveLive [product_lease, order_lease] 120 ''ORDER-SERVICE'' = [order_lease]
   \<and> route gateway_config [product_lease, order_lease] 120 7 order_backend get_o101 =
       (\<lparr>gwStatus = 200, respHeaders = [(''Content-Type'', ''application/json'')],
         respBody = ''{\"id\":\"o101\",\"total\":1200.5,\"product\":\"Laptop\"}''\<rparr>,
        [\<lparr>toHost = ''127.0.0.1'', toPort = 9092,
          sent = get_o101\<lparr>gwPath := ''/orders/o101'',
                          gwHeaders := [(''Accept'', ''application/json'')]\<rparr>\<rparr>])"
proof -
  have p: "gwPath get_o101 = ''/api/orders/o101''" by (simp add: get_o101_def)
  have c: "cors_allows gateway_config get_o101"
    by (simp add: cors_allows_def gateway_config_def get_o101_def)
  have l: "ResolveLive [product_lease, order_lease] 120 ''ORDER-SERVICE'' = [order_lease]"
    by (simp add: ResolveLive_def visible_def product_lease_def order_lease_def)
  have h: "addrHost order_lease = ''127.0.0.1''" and q: "addrPort order_lease = 9092"
    by (simp_all add: order_lease_def)
  have f: "filter (\<lambda>h. fst h \<notin> set hop_by_hop) (gwHeaders get_o101) = [(''Accept'', ''application/json'')]"
    by (simp add: get_o101_def hop_by_hop_def)
  have b: "order_backend \<lparr>toHost = ''127.0.0.1'', toPort = 9092,
             sent = get_o101\<lparr>gwPath := ''/orders/o101'',
                             gwHeaders := filter (\<lambda>h. fst h \<notin> set hop_by_hop) (gwHeaders get_o101)\<rparr>\<rparr>
           = Some \<lparr>gwStatus = 200, respHeaders = [(''Content-Type'', ''application/json'')],
                    respBody = ''{\"id\":\"o101\",\"total\":1200.5,\"product\":\"Laptop\"}''\<rparr>"
    by (simp add: order_backend_def)
  from route_orders_o101 [where r = get_o101 and table = "[product_lease, order_lease]" and now = 120
      and l = order_lease and backend = order_backend and pick = 7, OF p c l h q b] p c l
  show ?thesis
    unfolding f by blast
qed


text \<open>
  Claim C7. A request that carries an \<open>Origin\<close> header whose value is none of
  \<open>http://localhost:5173\<close>, \<open>http://localhost:3000\<close> and \<open>https://production-domain.com\<close>
  is answered by the router itself, with 403, and no call to an instance is made.
\<close>

theorem route_rejects_foreign_origin:
  assumes "origin r = Some og"
    and "og \<notin> {''http://localhost:5173'', ''http://localhost:3000'', ''https://production-domain.com''}"
  shows "route gateway_config table now pick backend r = (gateway_error 403 ''Invalid CORS request'', [])
    \<and> snd (route gateway_config table now pick backend r) = []"
  using assms
  by (simp add: route_def cors_allows_def gateway_config_def)

theorem route_rejects_foreign_origin_witness:
  "origin get_o101_foreign = Some ''http://evil.example''
   \<and> ''http://evil.example''
         \<notin> {''http://localhost:5173'', ''http://localhost:3000'', ''https://production-domain.com''}
   \<and> route gateway_config [product_lease, order_lease] 120 7 order_backend get_o101_foreign
       = (gateway_error 403 ''Invalid CORS request'', [])"
proof -
  have o: "origin get_o101_foreign = Some ''http://evil.example''"
    by (simp add: get_o101_foreign_def)
  have n: "''http://evil.example''
         \<notin> {''http://localhost:5173'', ''http://localhost:3000'', ''https://production-domain.com''}"
    by simp
  from route_rejects_foreign_origin [where r = get_o101_foreign and og = "''http://evil.example''"
      and table = "[product_lease, order_lease]" and now = 120 and pick = 7
      and backend = order_backend, OF o n] o n
  show ?thesis by blast
qed

section \<open>Properties of the order API\<close>

subsection \<open>Formatting the counter\<close>

declare dec_digits.simps [simp del]





















subsection \<open>The counter along a run\<close>






subsection \<open>PUT: what an update changes\<close>

text \<open>
  Claim C8. A PUT that is answered with an error leaves the state as it was: an empty id is
  answered 400, an id that is not in the store 404, a body that does not decode 400. The
  state changes only when the id is in the store and the body decodes; then the answer is
  200, the entry of that id becomes the decoded order with its \<open>ID\<close> set to the id of the
  path, and every other entry and the counter stay as they were.
\<close>

theorem handleUpdateOrder_frame:
  assumes "oid = TrimPrefix (urlPath r) ''/orders/''"
    and "(w, s') = handleUpdateOrder decode s r"
  shows "(oid = '''' \<longrightarrow> w = http_Error ''{\"error\": \"Order ID is required\"}'' 400 \<and> s' = s)
    \<and> (oid \<noteq> '''' \<and> ordersStore s oid = None \<longrightarrow>
          w = http_Error ''{\"error\": \"Order not found\"}'' 404 \<and> s' = s)
    \<and> (oid \<noteq> '''' \<and> ordersStore s oid \<noteq> None \<and> decode (reqBody r) = None \<longrightarrow>
          w = http_Error ''{\"error\": \"Invalid request body\"}'' 400 \<and> s' = s)
    \<and> (statusCode w \<noteq> 200 \<longrightarrow> s' = s)
    \<and> (s' \<noteq> s \<longrightarrow> oid \<in> dom (ordersStore s) \<and> decode (reqBody r) \<noteq> None)
    \<and> (\<forall>u. oid \<noteq> '''' \<and> ordersStore s oid \<noteq> None \<and> decode (reqBody r) = Some u \<longrightarrow>
          w = \<lparr>statusCode = 200, payload = OrderJSON (u\<lparr>ID := oid\<rparr>)\<rparr>
          \<and> s' = s\<lparr>ordersStore := (ordersStore s)(oid \<mapsto> u\<lparr>ID := oid\<rparr>)\<rparr>
          \<and> ordersStore s' oid = Some (u\<lparr>ID := oid\<rparr>)
          \<and> (\<forall>k. k \<noteq> oid \<longrightarrow> ordersStore s' k = ordersStore s k)
          \<and> nextOrderID s' = nextOrderID s)"
  using assms
  by (auto simp: handleUpdateOrder_def Let_def http_Error_def StatusOK_def StatusBadRequest_def
      StatusNotFound_def split: option.splits if_splits)

theorem handleUpdateOrder_frame_witness:
  "handleUpdateOrder decode_sample (init_state 1200 25) (PUT ''/orders/'' '''')
     = (http_Error ''{\"error\": \"Order ID is required\"}'' 400, init_state 1200 25)
   \<and> handleUpdateOrder decode_sample (init_state 1200 25) (PUT ''/orders/o999'' '''')
     = (http_Error ''{\"error\": \"Order not found\"}'' 404, init_state 1200 25)
   \<and> handleUpdateOrder decode_sample (init_state 1200 25) (PUT ''/orders/o101'' ''{'')
     = (http_Error ''{\"error\": \"Invalid request body\"}'' 400, init_state 1200 25)
   \<and> ordersStore (snd (handleUpdateOrder decode_sample (init_state 1200 25)
        (PUT ''/orders/o101'' ''{\"id\": \"o102\", \"product\": \"Pad\", \"total\": 5}''))) ''o101''
     = Some \<lparr>ID = ''o101'', Total = 5, Product = ''Pad''\<rparr>
   \<and> ordersStore (snd (handleUpdateOrder decode_sample (init_state 1200 25)
        (PUT ''/orders/o101'' ''{\"id\": \"o102\", \"product\": \"Pad\", \"total\": 5}''))) ''o102''
     = Some \<lparr>ID = ''o102'', Total = 25, Product = ''Mouse''\<rparr>"
proof -
  let ?s = "init_state 1200 25 :: int state"
  have a: "TrimPrefix ''/orders/'' ''/orders/'' = ''''"
    and b: "TrimPrefix ''/orders/o999'' ''/orders/'' = ''o999''"
    and c: "TrimPrefix ''/orders/o101'' ''/orders/'' = ''o101''"
    by (simp_all add: TrimPrefix_def)
  have d: "decode_sample ''{'' = None"
    and e: "decode_sample ''{\"id\": \"o102\", \"product\": \"Pad\", \"total\": 5}''
            = Some \<lparr>ID = ''o102'', Total = 5, Product = ''Pad''\<rparr>"
    by (simp_all add: decode_sample_def)
  have s1: "ordersStore ?s ''o999'' = None" and s2: "ordersStore ?s ''o101'' \<noteq> None"
    and s3: "ordersStore ?s ''o102'' = Some \<lparr>ID = ''o102'', Total = 25, Product = ''Mouse''\<rparr>"
    by (simp_all add: init_state_def)
  let ?h = "handleUpdateOrder decode_sample ?s"
  from handleUpdateOrder_frame [of "''''" "PUT ''/orders/'' ''''" "fst (?h (PUT ''/orders/'' ''''))" "snd (?h (PUT ''/orders/'' ''''))" decode_sample ?s] a
  have 1: "handleUpdateOrder decode_sample ?s (PUT ''/orders/'' '''')
           = (http_Error ''{\"error\": \"Order ID is required\"}'' 400, ?s)"
    by (simp add: PUT_def prod_eq_iff)
  from handleUpdateOrder_frame [of "''o999''" "PUT ''/orders/o999'' ''''" "fst (?h (PUT ''/orders/o999'' ''''))" "snd (?h (PUT ''/orders/o999'' ''''))" decode_sample ?s] b s1
  have 2: "handleUpdateOrder decode_sample ?s (PUT ''/orders/o999'' '''')
           = (http_Error ''{\"error\": \"Order not found\"}'' 404, ?s)"
    by (simp add: PUT_def prod_eq_iff)
  from handleUpdateOrder_frame [of "''o101''" "PUT ''/orders/o101'' ''{''" "fst (?h (PUT ''/orders/o101'' ''{''))" "snd (?h (PUT ''/orders/o101'' ''{''))" decode_sample ?s] c d s2
  have 3: "handleUpdateOrder decode_sample ?s (PUT ''/orders/o101'' ''{'')
           = (http_Error ''{\"error\": \"Invalid request body\"}'' 400, ?s)"
    by (simp add: PUT_def prod_eq_iff)
  let ?r = "PUT ''/orders/o101'' ''{\"id\": \"o102\", \"product\": \"Pad\", \"total\": 5}''"
  from handleUpdateOrder_frame [of "''o101''" ?r "fst (?h ?r)" "snd (?h ?r)" decode_sample ?s] c e s2 s3
  have 4: "ordersStore (snd (handleUpdateOrder decode_sample ?s
        (PUT ''/orders/o101'' ''{\"id\": \"o102\", \"product\": \"Pad\", \"total\": 5}''))) ''o101''
     = Some \<lparr>ID = ''o101'', Total = 5, Product = ''Pad''\<rparr>
   \<and> ordersStore (snd (handleUpdateOrder decode_sample ?s
        (PUT ''/orders/o101'' ''{\"id\": \"o102\", \"product\": \"Pad\", \"total\": 5}''))) ''o102''
     = Some \<lparr>ID = ''o102'', Total = 25, Product = ''Mouse''\<rparr>"
    by (simp add: PUT_def)
  from 1 2 3 4 show ?thesis by blast
qed

subsection \<open>DELETE: what a delete removes\<close>

text \<open>No order is ever stored under the empty id.\<close>

lemma Sprintf_o1_nonempty: "Sprintf_o1 w \<noteq> ''''"
  by (simp add: Sprintf_o1_def)

lemma ordersRouter_no_empty_id:
  "ordersStore s '''' = None \<Longrightarrow> ordersStore (snd (ordersRouter decode visit s r)) '''' = None"
  using Sprintf_o1_nonempty [of "nextOrderID s"]
  by (auto simp: ordersRouter_def handleGetOrders_def handleCreateOrder_def handleUpdateOrder_def
      handleDeleteOrder_def Let_def split: option.splits if_splits)

lemma serve_no_empty_id:
  "ordersStore s '''' = None \<Longrightarrow> ordersStore (snd (serve decode visit s rs)) '''' = None"
proof (induction rs arbitrary: s)
  case Nil
  then show ?case by simp
next
  case (Cons r rs)
  from Cons.prems have "ordersStore (snd (ordersRouter decode visit s r)) '''' = None"
    by (rule ordersRouter_no_empty_id)
  then have "ordersStore (snd (serve decode visit (snd (ordersRouter decode visit s r)) rs)) '''' = None"
    by (rule Cons.IH)
  then show ?case by (auto split: prod.splits)
qed

lemma reachable_no_empty_id:
  "ordersStore (snd (serve decode visit (init_state t1 t2) rs)) '''' = None"
  by (rule serve_no_empty_id) (simp add: init_state_def)

text \<open>
  Claim C9. A DELETE whose id names an order of the store removes exactly that entry (every
  other entry and the counter are unchanged) and is answered 204 with no content; the
  same DELETE sent again is then answered 404. A DELETE whose id is not in the store is
  answered 404 and changes nothing. The id of the path is not empty in both cases: with
  an empty id the handler answers 400 and changes nothing, and in no state that a run of
  the process reaches does the empty id name an order.
\<close>

theorem handleDeleteOrder_frame:
  assumes "oid = TrimPrefix (urlPath r) ''/orders/''"
    and "(w, s') = handleDeleteOrder s r"
  shows "(oid \<noteq> '''' \<and> ordersStore s oid \<noteq> None \<longrightarrow>
            w = \<lparr>statusCode = 204, payload = NoContent\<rparr>
            \<and> s' = s\<lparr>ordersStore := (ordersStore s)(oid := None)\<rparr>
            \<and> ordersStore s' oid = None
            \<and> (\<forall>k. k \<noteq> oid \<longrightarrow> ordersStore s' k = ordersStore s k)
            \<and> dom (ordersStore s') = dom (ordersStore s) - {oid}
            \<and> nextOrderID s' = nextOrderID s
            \<and> handleDeleteOrder s' r = (http_Error ''{\"error\": \"Order not found\"}'' 404, s'))
    \<and> (oid \<noteq> '''' \<and> ordersStore s oid = None \<longrightarrow>
            w = http_Error ''{\"error\": \"Order not found\"}'' 404 \<and> s' = s)
    \<and> (oid = '''' \<longrightarrow> w = http_Error ''{\"error\": \"Order ID is required\"}'' 400 \<and> s' = s)
    \<and> ordersStore (snd (serve decode visit (init_state t1 t2) rs)) '''' = None"
proof -
  from assms have "(oid \<noteq> '''' \<and> ordersStore s oid \<noteq> None \<longrightarrow>
            w = \<lparr>statusCode = 204, payload = NoContent\<rparr>
            \<and> s' = s\<lparr>ordersStore := (ordersStore s)(oid := None)\<rparr>
            \<and> ordersStore s' oid = None
            \<and> (\<forall>k. k \<noteq> oid \<longrightarrow> ordersStore s' k = ordersStore s k)
            \<and> dom (ordersStore s') = dom (ordersStore s) - {oid}
            \<and> nextOrderID s' = nextOrderID s
            \<and> handleDeleteOrder s' r = (http_Error ''{\"error\": \"Order not found\"}'' 404, s'))
    \<and> (oid \<noteq> '''' \<and> ordersStore s oid = None \<longrightarrow>
            w = http_Error ''{\"error\": \"Order not found\"}'' 404 \<and> s' = s)
    \<and> (oid = '''' \<longrightarrow> w = http_Error ''{\"error\": \"Order ID is required\"}'' 400 \<and> s' = s)"
    by (auto simp: handleDeleteOrder_def Let_def http_Error_def StatusNoContent_def StatusBadRequest_def
        StatusNotFound_def split: option.splits if_splits)
  with reachable_no_empty_id [of decode visit t1 t2 rs] show ?thesis by blast
qed

theorem handleDeleteOrder_frame_witness:
  "fst (handleDeleteOrder (init_state (1200::int) 25) (DELETE ''/orders/o101''))
     = \<lparr>statusCode = 204, payload = NoContent\<rparr>
   \<and> ordersStore (snd (handleDeleteOrder (init_state (1200::int) 25) (DELETE ''/orders/o101''))) ''o101'' = None
   \<and> ordersStore (snd (handleDeleteOrder (init_state (1200::int) 25) (DELETE ''/orders/o101''))) ''o102''
     = Some \<lparr>ID = ''o102'', Total = 25, Product = ''Mouse''\<rparr>
   \<and> handleDeleteOrder (snd (handleDeleteOrder (init_state (1200::int) 25) (DELETE ''/orders/o101'')))
        (DELETE ''/orders/o101'')
     = (http_Error ''{\"error\": \"Order not found\"}'' 404,
        snd (handleDeleteOrder (init_state (1200::int) 25) (DELETE ''/orders/o101'')))
   \<and> handleDeleteOrder (init_state (1200::int) 25) (DELETE ''/orders/o999'')
     = (http_Error ''{\"error\": \"Order not found\"}'' 404, init_state 1200 25)
   \<and> handleDeleteOrder (init_state (1200::int) 25) (DELETE ''/orders/'')
     = (http_Error ''{\"error\": \"Order ID is required\"}'' 400, init_state 1200 25)"
proof -
  let ?s = "init_state 1200 25 :: int state"
  let ?h = "handleDeleteOrder ?s"
  have a: "TrimPrefix ''/orders/'' ''/orders/'' = ''''"
    and b: "TrimPrefix ''/orders/o999'' ''/orders/'' = ''o999''"
    and c: "TrimPrefix ''/orders/o101'' ''/orders/'' = ''o101''"
    by (simp_all add: TrimPrefix_def)
  have s1: "ordersStore ?s ''o999'' = None" and s2: "ordersStore ?s ''o101'' \<noteq> None"
    and s3: "ordersStore ?s ''o102'' = Some \<lparr>ID = ''o102'', Total = 25, Product = ''Mouse''\<rparr>"
    by (simp_all add: init_state_def)
  let ?r = "DELETE ''/orders/o101''"
  have h1: "''o101'' = TrimPrefix (urlPath ?r) ''/orders/''" by (simp add: DELETE_def c)
  have h2: "(fst (?h ?r), snd (?h ?r)) = ?h ?r" by simp
  have ne: "''o101'' \<noteq> ''''" "''o102'' \<noteq> ''o101''" by simp_all
  from handleDeleteOrder_frame [where decode = decode_sample and visit = visit_none and ?t1.0 = "1200::int" and ?t2.0 = 25 and rs = "[]", OF h1 h2] s2 ne(1)
  have t: "fst (?h ?r) = \<lparr>statusCode = 204, payload = NoContent\<rparr>"
    "ordersStore (snd (?h ?r)) ''o101'' = None"
    "\<forall>k. k \<noteq> ''o101'' \<longrightarrow> ordersStore (snd (?h ?r)) k = ordersStore ?s k"
    "handleDeleteOrder (snd (?h ?r)) ?r = (http_Error ''{\"error\": \"Order not found\"}'' 404, snd (?h ?r))"
    by blast+
  from t(3) ne(2) s3
  have "ordersStore (snd (?h ?r)) ''o102'' = Some \<lparr>ID = ''o102'', Total = 25, Product = ''Mouse''\<rparr>"
    by metis
  with t have 1: "fst (?h ?r) = \<lparr>statusCode = 204, payload = NoContent\<rparr>
    \<and> ordersStore (snd (?h ?r)) ''o101'' = None
    \<and> ordersStore (snd (?h ?r)) ''o102'' = Some \<lparr>ID = ''o102'', Total = 25, Product = ''Mouse''\<rparr>
    \<and> handleDeleteOrder (snd (?h ?r)) ?r = (http_Error ''{\"error\": \"Order not found\"}'' 404, snd (?h ?r))"
    by blast
  let ?r2 = "DELETE ''/orders/o999''"
  from handleDeleteOrder_frame [of "''o999''" ?r2 "fst (?h ?r2)" "snd (?h ?r2)" ?s decode_sample visit_none
      "1200::int" 25 "[]"] b s1
  have 2: "?h ?r2 = (http_Error ''{\"error\": \"Order not found\"}'' 404, ?s)"
    by (simp add: DELETE_def prod_eq_iff)
  let ?r3 = "DELETE ''/orders/''"
  from handleDeleteOrder_frame [of "''''" ?r3 "fst (?h ?r3)" "snd (?h ?r3)" ?s decode_sample visit_none
      "1200::int" 25 "[]"] a
  have 3: "?h ?r3 = (http_Error ''{\"error\": \"Order ID is required\"}'' 400, ?s)"
    by (simp add: DELETE_def prod_eq_iff)
  from 1 2 3 show ?thesis by blast
qed


subsection \<open>POST: the IDs of created orders\<close>










end
